theory Spec2Isabelle
  imports Main
begin

section \<open>The Node https transport\<close>

text \<open>
  The class \<open>HTTPSTransport\<close> extends \<open>BaseTransport\<close>, whose code is not part of the
  sources at hand. What the subclass uses of it is taken as parameters, with the types the
  subclass relies on:
  \<^item> the base constructor, which stores the options and derives \<open>this._api\<close> from them;
  \<^item> \<open>_getProxy(protocol)\<close>, of type \<open>string | undefined\<close>;
  \<^item> \<open>_sendWithModule(module, request, payload)\<close>, which returns a promise;
  \<^item> the payload builders \<open>eventToSentryRequest\<close> and \<open>sessionToSentryRequest\<close> of
    the core package, synchronous functions that return a request.
  A synchronous \<open>throw\<close> is the left injection of a sum. In \<open>sendEvent\<close> and
  \<open>sendSession\<close> below the collaborators return, so the only \<open>throw\<close> is the one of the
  class itself; \<open>sendEvent_throwing\<close> and \<open>sendSession_throwing\<close> further down are the
  same two methods with collaborators that may throw.
\<close>

datatype HTTPModule = Https

record AgentOptions =
  keepAlive :: bool
  maxSockets :: nat
  timeout :: nat

datatype Agent = HttpsAgent AgentOptions | HttpsProxyAgent string

datatype SentryError = SentryError string

record ('o, 'a) HTTPSTransport =
  options :: 'o
  api :: 'a
  module :: "HTTPModule option"
  client :: "Agent option"

record ('o, 'a, 'e, 's, 'r, 'p) BaseTransport =
  base_api :: "'o \<Rightarrow> 'a"
  getProxy :: "('o, 'a) HTTPSTransport \<Rightarrow> string \<Rightarrow> string option"
  eventToSentryRequest :: "'e \<Rightarrow> 'a \<Rightarrow> 'r"
  sessionToSentryRequest :: "'s \<Rightarrow> 'a \<Rightarrow> 'r"
  sendWithModule :: "('o, 'a) HTTPSTransport \<Rightarrow> HTTPModule \<Rightarrow> 'r \<Rightarrow> 'e + 's \<Rightarrow> 'p"

text \<open>
  JavaScript truthiness of a value of type \<open>string | undefined\<close>: \<open>undefined\<close> and the
  empty string are falsy.
\<close>

definition truthy :: "string option \<Rightarrow> bool" where
  "truthy p = (case p of None \<Rightarrow> False | Some s \<Rightarrow> s \<noteq> [])"

text \<open>
  What \<open>super(options)\<close> leaves behind: the options, the API configuration derived from
  them, and no module and no client yet.
\<close>

definition BaseTransport_constructor ::
  "('o, 'a, 'e, 's, 'r, 'p) BaseTransport \<Rightarrow> 'o \<Rightarrow> ('o, 'a) HTTPSTransport" where
  "BaseTransport_constructor base opts =
     \<lparr>options = opts, api = base_api base opts, module = None, client = None\<rparr>"

text \<open>
  The constructor: \<open>super(options)\<close>, then the proxy lookup for the scheme \<open>https\<close>, then
  the two assignments to \<open>this.module\<close> and \<open>this.client\<close>.
\<close>

definition HTTPSTransport_constructor ::
  "('o, 'a, 'e, 's, 'r, 'p) BaseTransport \<Rightarrow> 'o \<Rightarrow> ('o, 'a) HTTPSTransport" where
  "HTTPSTransport_constructor base opts =
     (let this0 = BaseTransport_constructor base opts;
          proxy = getProxy base this0 ''https'';
          this1 = this0\<lparr>module := Some Https\<rparr>
      in this1\<lparr>client := Some
           (if truthy proxy then HttpsProxyAgent (the proxy)
            else HttpsAgent \<lparr>keepAlive = False, maxSockets = 30, timeout = 2000\<rparr>)\<rparr>)"

definition sendEvent ::
  "('o, 'a, 'e, 's, 'r, 'p) BaseTransport \<Rightarrow> ('o, 'a) HTTPSTransport \<Rightarrow> 'e \<Rightarrow> SentryError + 'p" where
  "sendEvent base this event =
     (case module this of
        None \<Rightarrow> Inl (SentryError ''No module available in HTTPSTransport'')
      | Some m \<Rightarrow> Inr (sendWithModule base this m (eventToSentryRequest base event (api this)) (Inl event)))"

definition sendSession ::
  "('o, 'a, 'e, 's, 'r, 'p) BaseTransport \<Rightarrow> ('o, 'a) HTTPSTransport \<Rightarrow> 's \<Rightarrow> SentryError + 'p" where
  "sendSession base this session =
     (case module this of
        None \<Rightarrow> Inl (SentryError ''No module available in HTTPTransport'')
      | Some m \<Rightarrow> Inr (sendWithModule base this m (sessionToSentryRequest base session (api this)) (Inr session)))"

text \<open>
  The two methods once more, with collaborators that may throw: a call of a payload
  builder or of \<open>_sendWithModule\<close> either returns (\<open>Inr\<close>) or throws a value (\<open>Inl\<close>).
  The methods have no \<open>try\<close>, so what a collaborator throws leaves the method. The
  arguments of \<open>_sendWithModule\<close> are evaluated before it is called: the builder runs first.
\<close>

record ('o, 'a, 'e, 's, 'r, 'p, 'x) ThrowingCollaborators =
  eventToSentryRequest_call :: "'e \<Rightarrow> 'a \<Rightarrow> 'x + 'r"
  sessionToSentryRequest_call :: "'s \<Rightarrow> 'a \<Rightarrow> 'x + 'r"
  sendWithModule_call :: "('o, 'a) HTTPSTransport \<Rightarrow> HTTPModule \<Rightarrow> 'r \<Rightarrow> 'e + 's \<Rightarrow> 'x + 'p"

datatype 'x SendThrown = OwnError SentryError | CollaboratorThrew 'x

definition sendEvent_throwing ::
  "('o, 'a, 'e, 's, 'r, 'p, 'x) ThrowingCollaborators \<Rightarrow> ('o, 'a) HTTPSTransport \<Rightarrow> 'e
     \<Rightarrow> 'x SendThrown + 'p" where
  "sendEvent_throwing col this event =
     (case module this of
        None \<Rightarrow> Inl (OwnError (SentryError ''No module available in HTTPSTransport''))
      | Some m \<Rightarrow>
          (case eventToSentryRequest_call col event (api this) of
             Inl x \<Rightarrow> Inl (CollaboratorThrew x)
           | Inr request \<Rightarrow>
               (case sendWithModule_call col this m request (Inl event) of
                  Inl x \<Rightarrow> Inl (CollaboratorThrew x)
                | Inr promise \<Rightarrow> Inr promise)))"

definition sendSession_throwing ::
  "('o, 'a, 'e, 's, 'r, 'p, 'x) ThrowingCollaborators \<Rightarrow> ('o, 'a) HTTPSTransport \<Rightarrow> 's
     \<Rightarrow> 'x SendThrown + 'p" where
  "sendSession_throwing col this session =
     (case module this of
        None \<Rightarrow> Inl (OwnError (SentryError ''No module available in HTTPTransport''))
      | Some m \<Rightarrow>
          (case sessionToSentryRequest_call col session (api this) of
             Inl x \<Rightarrow> Inl (CollaboratorThrew x)
           | Inr request \<Rightarrow>
               (case sendWithModule_call col this m request (Inr session) of
                  Inl x \<Rightarrow> Inl (CollaboratorThrew x)
                | Inr promise \<Rightarrow> Inr promise)))"

text \<open>Collaborators that always return, as collaborators that may throw.\<close>

definition returning ::
  "('o, 'a, 'e, 's, 'r, 'p) BaseTransport \<Rightarrow> ('o, 'a, 'e, 's, 'r, 'p, 'x) ThrowingCollaborators" where
  "returning base =
     \<lparr>eventToSentryRequest_call = (\<lambda>event a. Inr (eventToSentryRequest base event a)),
      sessionToSentryRequest_call = (\<lambda>session a. Inr (sessionToSentryRequest base session a)),
      sendWithModule_call = (\<lambda>this m request payload. Inr (sendWithModule base this m request payload))\<rparr>"

text \<open>The agent the constructor builds when no proxy is in use.\<close>

definition agentOptions :: "('o, 'a) HTTPSTransport \<Rightarrow> AgentOptions option" where
  "agentOptions this =
     (case client this of Some (HttpsAgent ao) \<Rightarrow> Some ao | _ \<Rightarrow> None)"

text \<open>Modelled from the spec: the configuration defaults are not among the sources; the
  specification gives a maximal queue size of 30 and a network timeout between 2 and 5
  seconds, in milliseconds here.\<close>

definition defaultMaxQueueSize :: nat where
  "defaultMaxQueueSize = 30"

definition defaultNetworkTimeout :: "nat \<Rightarrow> bool" where
  "defaultNetworkTimeout ms = (2000 \<le> ms \<and> ms \<le> 5000)"

section \<open>The API route wrapping loader\<close>

subsection \<open>JavaScript strings\<close>

text \<open>
  \<open>s.includes(pat)\<close> and \<open>s.replace(pat, repl)\<close> with a string pattern: the first
  occurrence of the pattern is replaced, and the replacement text is expanded as ECMAScript's
  GetSubstitution does for a match without capture groups (\<open>$$\<close>, \<open>$&\<close>, the text before
  the match for dollar-backtick and the text after it for dollar-quote; any other character
  after a dollar sign is kept as it is).
\<close>

fun startsWith :: "string \<Rightarrow> string \<Rightarrow> bool" where
  "startsWith s [] = True"
| "startsWith [] (p # ps) = False"
| "startsWith (c # cs) (p # ps) = (c = p \<and> startsWith cs ps)"

fun String_includes :: "string \<Rightarrow> string \<Rightarrow> bool" where
  "String_includes [] pat = (pat = [])"
| "String_includes (c # cs) pat = (startsWith (c # cs) pat \<or> String_includes cs pat)"

fun firstMatch :: "string \<Rightarrow> string \<Rightarrow> (string \<times> string) option" where
  "firstMatch [] pat = (if pat = [] then Some ([], []) else None)"
| "firstMatch (c # cs) pat =
     (if startsWith (c # cs) pat then Some ([], drop (length pat) (c # cs))
      else (case firstMatch cs pat of
              None \<Rightarrow> None
            | Some (pre, post) \<Rightarrow> Some (c # pre, post)))"

fun getSubstitution :: "string \<Rightarrow> string \<Rightarrow> string \<Rightarrow> string \<Rightarrow> string" where
  "getSubstitution matched pre post [] = []"
| "getSubstitution matched pre post [c] = [c]"
| "getSubstitution matched pre post (c # d # rest) =
     (if c = CHR ''$'' then
        (if d = CHR ''$'' then CHR ''$'' # getSubstitution matched pre post rest
         else if d = CHR ''&'' then matched @ getSubstitution matched pre post rest
         else if d = CHR 0x60 then pre @ getSubstitution matched pre post rest
         else if d = CHR 0x27 then post @ getSubstitution matched pre post rest
         else c # getSubstitution matched pre post (d # rest))
      else c # getSubstitution matched pre post (d # rest))"

definition String_replace :: "string \<Rightarrow> string \<Rightarrow> string \<Rightarrow> string" where
  "String_replace s pat repl =
     (case firstMatch s pat of
        None \<Rightarrow> s
      | Some (pre, post) \<Rightarrow> pre @ getSubstitution pat pre post repl @ post)"

subsection \<open>The loader\<close>

record LoaderOptions =
  sdkPath :: string

record Loader =
  options :: LoaderOptions
  path :: string

record LoaderContext =
  resource :: string
  loaders :: "Loader list"

text \<open>
  The default export of the compiled route module: a function, with the text its
  \<open>toString()\<close> gives, or any other value. A thrown value is either the \<open>TypeError\<close> of a
  property read on \<open>undefined\<close> or a value thrown by code outside this file.
\<close>

datatype 'v DefaultExport = Function string | NotFunction 'v

datatype 'x Thrown = TypeError | Thrown 'x

text \<open>
  Node's \<open>Module\<close> class is outside the repository: \<open>compile code filename\<close> stands for
  \<open>new Module(filename, parent)\<close>, \<open>_compile(code, filename)\<close> and the read of
  \<open>exports.default\<close>; it may throw. \<open>wrapperSource\<close> is the text of
  \<open>newHandler.toString()\<close>, the arrow function of \<open>makeWrappedRequestHandler\<close> as the
  running build prints it.
\<close>

record ('x, 'v) ModuleEnv =
  compile :: "string \<Rightarrow> string \<Rightarrow> 'x + 'v DefaultExport"
  wrapperSource :: string

fun getOptions :: "Loader list \<Rightarrow> LoaderOptions option" where
  "getOptions [] = None"
| "getOptions (loader # rest) =
     (if String_includes (path loader) ''nextjs/dist/utils/api-wrapping-loader''
      then Some (Loader.options loader) else getOptions rest)"

definition couldNotWrap :: "string \<Rightarrow> string" where
  "couldNotWrap res =
     ''[Sentry] Could not wrap '' @ res @
     '' for error handling. Default export is not a function.''"

text \<open>
  \<open>load\<close> threads the lines written with \<open>console.warn\<close>: it takes the console and
  returns it with what the call has appended.
\<close>

definition load ::
  "('x, 'v) ModuleEnv \<Rightarrow> LoaderContext \<Rightarrow> string \<Rightarrow> string list \<Rightarrow>
     ('x Thrown + string) \<times> string list" where
  "load env this rawInput console =
     (case getOptions (loaders this) of
        None \<Rightarrow> (Inl TypeError, console)
      | Some opts \<Rightarrow>
          (let origCode = String_replace rawInput ''@sentry/nextjs'' (sdkPath opts);
               filename = ''lookIMadeAModule''
           in case compile env origCode filename of
                Inl x \<Rightarrow> (Inl (Thrown x), console)
              | Inr (NotFunction v) \<Rightarrow> (Inr rawInput, console @ [couldNotWrap (resource this)])
              | Inr (Function origHandler) \<Rightarrow>
                  (let newCode = String_replace origCode origHandler (wrapperSource env);
                       newCode = newCode @ [CHR 0x0A, CHR 0x0A] @ ''const origHandler = '' @ origHandler
                   in (Inr newCode, console))))"

subsection \<open>The wrapped request handler\<close>

text \<open>
  A handler returns a promise; awaited, it gives a value or throws the rejection reason.
  The handler and the two calls into the SDK act on the world \<open>'w\<close> (the response, the
  SDK's queue), threaded through. \<open>Sentry.captureException\<close> and \<open>Sentry.flush\<close> are
  the SDK's entry points, outside this file: each updates the world and either returns or
  throws (for \<open>flush\<close>: the awaited promise resolves or rejects).
\<close>

record ('x, 'w) Sentry =
  captureException :: "'x \<Rightarrow> 'w \<Rightarrow> ('x + string) \<times> 'w"
  flush :: "nat \<Rightarrow> 'w \<Rightarrow> ('x + bool) \<times> 'w"

type_synonym ('q, 'r, 'x, 'w) RequestHandler = "'q \<Rightarrow> 'r \<Rightarrow> 'w \<Rightarrow> ('x + unit) \<times> 'w"

definition makeWrappedRequestHandler ::
  "('x, 'w) Sentry \<Rightarrow> ('q, 'r, 'x, 'w) RequestHandler \<Rightarrow> ('q, 'r, 'x, 'w) RequestHandler" where
  "makeWrappedRequestHandler sentry origHandler req res w =
     (case origHandler req res w of
        (Inr v, w1) \<Rightarrow> (Inr v, w1)
      | (Inl err, w1) \<Rightarrow>
          (case captureException sentry err w1 of
             (Inl e, w2) \<Rightarrow> (Inl e, w2)
           | (Inr eventId, w2) \<Rightarrow>
               (case flush sentry 2000 w2 of
                  (Inl e, w3) \<Rightarrow> (Inl e, w3)
                | (Inr flushed, w3) \<Rightarrow> (Inl err, w3))))"

section \<open>The Next.js configuration wrapper\<close>

subsection \<open>Injecting the SDK's config file into the entry property\<close>

text \<open>
  The value under a key of the entry object is a string, an array of strings, or an
  object that lists its entry points under the key \<open>import\<close> beside other options (a map
  from key to value here). The entry property is that object or an asynchronous function
  returning it; awaiting the function gives the object or throws.
\<close>

datatype EntryImport = ImportString string | ImportArray "string list"

datatype 'v EntryValue =
    EntryString string
  | EntryArray "string list"
  | EntryPointObject EntryImport "string \<Rightarrow> 'v option"

type_synonym 'v EntryPropertyObject = "string \<Rightarrow> 'v EntryValue option"

datatype ('x, 'v) EntryProperty =
    EntryObject "'v EntryPropertyObject"
  | EntryFunction "unit \<Rightarrow> 'x + 'v EntryPropertyObject"

definition injectionPoint :: "bool \<Rightarrow> string" where
  "injectionPoint isServer = (if isServer then ''pages/_document'' else ''main'')"

definition injectee :: "bool \<Rightarrow> string" where
  "injectee isServer =
     (if isServer then ''./sentry.server.config.js'' else ''./sentry.client.config.js'')"

text \<open>
  The first step of \<open>injectSentry\<close>: a function is called and awaited, an object is
  taken as it is. \<open>Inr\<close> is the entry object, \<open>Inl\<close> what the awaited call threw.
\<close>

definition resolveEntryProperty ::
  "('x, 'v) EntryProperty \<Rightarrow> 'x Thrown + 'v EntryPropertyObject" where
  "resolveEntryProperty origEntryProperty =
     (case origEntryProperty of
        EntryFunction f \<Rightarrow> (case f () of Inl x \<Rightarrow> Inl (Thrown x) | Inr obj \<Rightarrow> Inr obj)
      | EntryObject obj \<Rightarrow> Inr obj)"

text \<open>
  \<open>injectSentry\<close> returns a promise: \<open>Inr\<close> is the value it resolves to, \<open>Inl\<close> the
  reason it rejects with. Reading \<open>import\<close> from the \<open>undefined\<close> found under a missing
  key is a \<open>TypeError\<close>. The two \<open>console.log\<close> calls are left out.
\<close>

definition injectSentry ::
  "('x, 'v) EntryProperty \<Rightarrow> bool \<Rightarrow> 'x Thrown + 'v EntryPropertyObject" where
  "injectSentry origEntryProperty isServer =
     (case resolveEntryProperty origEntryProperty of
        Inl e \<Rightarrow> Inl e
      | Inr newEntryProperty \<Rightarrow>
          (case newEntryProperty (injectionPoint isServer) of
             None \<Rightarrow> Inl TypeError
           | Some injectedInto \<Rightarrow>
               (let injected =
                      (case injectedInto of
                         EntryString s \<Rightarrow> EntryArray [injectee isServer, s]
                       | EntryArray xs \<Rightarrow> EntryArray (injectee isServer # xs)
                       | EntryPointObject imp other \<Rightarrow>
                           EntryPointObject
                             (ImportArray
                                (case imp of
                                   ImportString s \<Rightarrow> [injectee isServer, s]
                                 | ImportArray xs \<Rightarrow> injectee isServer # xs))
                             other);
                    newEntryProperty = newEntryProperty(injectionPoint isServer \<mapsto> injected)
                in (case newEntryProperty ''main.js'' of
                      Some v \<Rightarrow> Inr (newEntryProperty(''main.js'' := None))
                    | None \<Rightarrow> Inr newEntryProperty))))"

text \<open>The entry points a value lists, in order.\<close>

fun entryPoints :: "'v EntryValue \<Rightarrow> string list" where
  "entryPoints (EntryString s) = [s]"
| "entryPoints (EntryArray xs) = xs"
| "entryPoints (EntryPointObject (ImportString s) other) = [s]"
| "entryPoints (EntryPointObject (ImportArray xs) other) = xs"

text \<open>The options an entry point object carries beside \<open>import\<close>.\<close>

fun otherOptions :: "'v EntryValue \<Rightarrow> (string \<Rightarrow> 'v option) option" where
  "otherOptions (EntryPointObject imp other) = Some other"
| "otherOptions v = None"

subsection \<open>The warning of \<open>withSentryConfig\<close>\<close>

text \<open>
  An object is the list of its own enumerable properties in enumeration order, so
  \<open>Object.keys\<close> is the list of first components. The values of the default options come
  from the environment of the build.
\<close>

record BuildEnv =
  sentryRelease :: "string option"
  SENTRY_URL :: "string option"
  SENTRY_ORG :: "string option"
  SENTRY_PROJECT :: "string option"
  SENTRY_AUTH_TOKEN :: "string option"

datatype PluginOptionValue = OptString "string option" | OptStrings "string list"

definition defaultWebpackPluginOptions :: "BuildEnv \<Rightarrow> (string \<times> PluginOptionValue) list" where
  "defaultWebpackPluginOptions env =
     [(''release'', OptString (sentryRelease env)),
      (''url'', OptString (SENTRY_URL env)),
      (''org'', OptString (SENTRY_ORG env)),
      (''project'', OptString (SENTRY_PROJECT env)),
      (''authToken'', OptString (SENTRY_AUTH_TOKEN env)),
      (''configFile'', OptString (Some ''sentry.properties'')),
      (''stripPrefix'', OptStrings [''webpack://_N_E/'']),
      (''urlPrefix'', OptString (Some ''~/_next'')),
      (''include'', OptString (Some ''.next/'')),
      (''ignore'', OptStrings [''node_modules'', ''webpack.config.js''])]"

definition Object_keys :: "(string \<times> 'v) list \<Rightarrow> string list" where
  "Object_keys obj = map fst obj"

function ToString_nat :: "nat \<Rightarrow> string" where
  "ToString_nat n =
     (if n < 10 then [''0123456789'' ! n]
      else ToString_nat (n div 10) @ [''0123456789'' ! (n mod 10)])"
  by pat_completeness auto
termination
  by (relation "measure id") auto

declare ToString_nat.simps [simp del]

text \<open>
  \<open>key in array\<close>: the key names an own property of the array (an index below its length,
  or \<open>length\<close>) or a property found along its prototype chain; which names those are
  depends on the engine, so they are the parameter \<open>inherited\<close>.
\<close>

definition in_Array :: "(string \<Rightarrow> bool) \<Rightarrow> string \<Rightarrow> 'a list \<Rightarrow> bool" where
  "in_Array inherited key arr =
     (key \<in> set (map ToString_nat [0..<length arr]) \<or> key = ''length'' \<or> inherited key)"

definition webpackPluginOptionOverrides ::
  "(string \<Rightarrow> bool) \<Rightarrow> BuildEnv \<Rightarrow> (string \<times> 'v) list \<Rightarrow> bool list" where
  "webpackPluginOptionOverrides inherited env providedWebpackPluginOptions =
     map (\<lambda>key. in_Array inherited key (Object_keys providedWebpackPluginOptions))
       (Object_keys (defaultWebpackPluginOptions env) @ [''dryrun''])"

text \<open>The keys the list of overrides is computed from, in order.\<close>

definition overrideKeys :: "string list" where
  "overrideKeys =
     [''release'', ''url'', ''org'', ''project'', ''authToken'', ''configFile'',
      ''stripPrefix'', ''urlPrefix'', ''include'', ''ignore'', ''dryrun'']"

definition Boolean_toString :: "bool \<Rightarrow> string" where
  "Boolean_toString b = (if b then ''true'' else ''false'')"

fun Array_join :: "string list \<Rightarrow> string \<Rightarrow> string" where
  "Array_join [] sep = []"
| "Array_join [x] sep = x"
| "Array_join (x # y # ys) sep = x @ sep @ Array_join (y # ys) sep"

definition overrideWarning :: "bool list \<Rightarrow> string" where
  "overrideWarning overrides =
     ''[next-plugin-sentry] You are overriding the following automatically-set SentryWebpackPlugin config options:''
     @ [CHR 0x0A] @ [CHR 0x09] @ Array_join (map Boolean_toString overrides) '','' @ '','' @ [CHR 0x0A]
     @ ''which has the possibility of breaking source map upload and application. This is only a good idea if you know what you're doing.''"

text \<open>
  \<open>withSentryConfig\<close>, as far as the logger sees it: the function takes the lines written
  with \<open>logger.warn\<close> so far and returns them with what the call has appended. The object
  it returns (the provided exports with \<open>productionBrowserSourceMaps\<close> set and \<open>webpack\<close>
  replaced) is built after the warning and is not part of this model.
\<close>

definition withSentryConfig ::
  "(string \<Rightarrow> bool) \<Rightarrow> BuildEnv \<Rightarrow> (string \<times> 'v) list \<Rightarrow> string list \<Rightarrow> string list" where
  "withSentryConfig inherited env providedWebpackPluginOptions logger =
     (let overrides = webpackPluginOptionOverrides inherited env providedWebpackPluginOptions
      in if length overrides > 0 then logger @ [overrideWarning overrides] else logger)"

section \<open>The hub's layer stack\<close>

text \<open>
  The interface \<open>Layer\<close> of the hub package has two optional fields, \<open>client\<close> and
  \<open>scope\<close>. The classes \<open>Scope\<close> and \<open>Hub\<close> it refers to are not among the sources
  at hand.
\<close>

text \<open>Modelled from the spec: the class \<open>Scope\<close> is missing; these are the fields of the
  specification's data model that hold plain data.\<close>

record Scope =
  tags :: "(string \<times> string) list"
  extraData :: "(string \<times> string) list"
  user :: "string option"
  breadcrumbs :: "string list"

record 'c Layer =
  client :: "'c option"
  scope :: "Scope option"

text \<open>Modelled from the spec: the class \<open>Scope\<close> is missing; an empty scope carries no
  data.\<close>

definition emptyScope :: Scope where
  "emptyScope = \<lparr>tags = [], extraData = [], user = None, breadcrumbs = []\<rparr>"

text \<open>Modelled from the spec: the class \<open>Scope\<close> is missing; cloning copies the plain
  data by value.\<close>

definition clone :: "Scope \<Rightarrow> Scope" where
  "clone s = \<lparr>tags = tags s, extraData = extraData s, user = user s, breadcrumbs = breadcrumbs s\<rparr>"

text \<open>Modelled from the spec: the class \<open>Hub\<close> is missing; a fresh stack is seeded with
  one layer that has no client and an empty scope. The last element of the stack is the
  current layer.\<close>

definition freshStack :: "'c Layer list" where
  "freshStack = [\<lparr>Layer.client = None, scope = Some emptyScope\<rparr>]"

text \<open>Modelled from the spec: the class \<open>Hub\<close> is missing; \<open>pushScope\<close> clones the
  scope of the top layer, or creates an empty one where there is none, into a new layer that
  shares the current client, and appends that layer.\<close>

definition pushScope :: "'c Layer list \<Rightarrow> 'c Layer list" where
  "pushScope stack =
     (case rev stack of
        [] \<Rightarrow> [\<lparr>Layer.client = None, scope = Some emptyScope\<rparr>]
      | cur # below \<Rightarrow>
          stack @ [\<lparr>Layer.client = Layer.client cur,
                    scope = Some (case scope cur of Some s \<Rightarrow> clone s | None \<Rightarrow> emptyScope)\<rparr>])"

text \<open>Modelled from the spec: the class \<open>Hub\<close> is missing; \<open>popScope\<close> removes the top
  layer if the depth is above 1 and tells whether it did.\<close>

definition popScope :: "'c Layer list \<Rightarrow> bool \<times> 'c Layer list" where
  "popScope stack = (if length stack > 1 then (True, butlast stack) else (False, stack))"

text \<open>Modelled from the spec: the class \<open>Hub\<close> is missing; \<open>bindClient\<close> replaces the
  client of the top layer and nothing else.\<close>

definition bindClient :: "'c \<Rightarrow> 'c Layer list \<Rightarrow> 'c Layer list" where
  "bindClient c stack =
     (case rev stack of
        [] \<Rightarrow> stack
      | cur # below \<Rightarrow> butlast stack @ [cur\<lparr>Layer.client := Some c\<rparr>])"

text \<open>Modelled from the spec: the class \<open>Hub\<close> is missing; the setters of a scope
  (\<open>setTag\<close>, \<open>setExtra\<close>, \<open>setUser\<close>, \<open>addBreadcrumb\<close>) change the current scope in
  place: \<open>mutateScope f\<close> applies such a change \<open>f\<close> to the scope of the top layer.\<close>

definition mutateScope :: "(Scope \<Rightarrow> Scope) \<Rightarrow> 'c Layer list \<Rightarrow> 'c Layer list" where
  "mutateScope f stack =
     (case rev stack of
        [] \<Rightarrow> stack
      | cur # below \<Rightarrow> butlast stack @ [cur\<lparr>scope := map_option f (scope cur)\<rparr>])"

text \<open>Modelled from the spec: the class \<open>Hub\<close> is missing; \<open>withScope\<close> pushes, runs
  the callback on the new scope, and pops on every exit path.\<close>

definition withScope :: "(Scope \<Rightarrow> Scope) \<Rightarrow> 'c Layer list \<Rightarrow> 'c Layer list" where
  "withScope fn stack = snd (popScope (mutateScope fn (pushScope stack)))"

text \<open>Modelled from the spec: the class \<open>Hub\<close> is missing; the operations that change
  the stack, and a run of them from the left.\<close>

datatype 'c HubOp =
    PushScope
  | PopScope
  | BindClient 'c
  | MutateScope "Scope \<Rightarrow> Scope"
  | WithScope "Scope \<Rightarrow> Scope"

fun hubStep :: "'c Layer list \<Rightarrow> 'c HubOp \<Rightarrow> 'c Layer list" where
  "hubStep stack PushScope = pushScope stack"
| "hubStep stack PopScope = snd (popScope stack)"
| "hubStep stack (BindClient c) = bindClient c stack"
| "hubStep stack (MutateScope f) = mutateScope f stack"
| "hubStep stack (WithScope fn) = withScope fn stack"

definition hubRun :: "'c HubOp list \<Rightarrow> 'c Layer list" where
  "hubRun ops = foldl hubStep freshStack ops"

text \<open>Every layer of the stack has a scope.\<close>

definition scopesPresent :: "'c Layer list \<Rightarrow> bool" where
  "scopesPresent stack = list_all (\<lambda>layer. scope layer \<noteq> None) stack"

section \<open>Concrete inputs\<close>

text \<open>
  A base transport for examples: the options are the configured https proxy, the payload
  builders return the number that stands for the event or session, and sending gives the
  request back.
\<close>

definition exampleBase :: "(string option, unit, nat, nat, nat, nat) BaseTransport" where
  "exampleBase =
     \<lparr>base_api = (\<lambda>opts. ()),
      getProxy = (\<lambda>this protocol. if protocol = ''https'' then HTTPSTransport.options this else None),
      eventToSentryRequest = (\<lambda>event a. event + 100),
      sessionToSentryRequest = (\<lambda>session a. session + 200),
      sendWithModule = (\<lambda>this m request payload. request)\<rparr>"

text \<open>
  Collaborators for examples: events and sessions are numbers; the builder of event
  requests throws on the event 0 (as \<open>JSON.stringify\<close> does on a circular structure), and
  \<open>_sendWithModule\<close> throws on the request 299 and otherwise returns a promise, a
  number here.
\<close>

definition exampleCollaborators ::
  "(string option, unit, nat, nat, nat, nat, string) ThrowingCollaborators" where
  "exampleCollaborators =
     \<lparr>eventToSentryRequest_call =
        (\<lambda>event a. if event = 0 then Inl ''TypeError: Converting circular structure to JSON''
                    else Inr (event + 100)),
      sessionToSentryRequest_call = (\<lambda>session a. Inr (session + 200)),
      sendWithModule_call =
        (\<lambda>this m request payload. if request = 299 then Inl ''thrown by _sendWithModule''
                                    else Inr (request + 1000))\<rparr>"

text \<open>
  Two SDKs for examples, whose world is the list of calls made: one whose calls all
  complete, one whose flush promise rejects. The handler \<open>failingHandler\<close> throws.
\<close>

definition workingSentry :: "(string, string list) Sentry" where
  "workingSentry =
     \<lparr>captureException = (\<lambda>err w. (Inr ''event-id'', w @ [''captureException '' @ err])),
      flush = (\<lambda>ms w. (Inr True, w @ [''flush '' @ ToString_nat ms]))\<rparr>"

definition rejectingSentry :: "(string, string list) Sentry" where
  "rejectingSentry =
     \<lparr>captureException = (\<lambda>err w. (Inr ''event-id'', w @ [''captureException '' @ err])),
      flush = (\<lambda>ms w. (Inl ''flush rejected'', w @ [''flush '' @ ToString_nat ms]))\<rparr>"

definition failingHandler :: "(unit, unit, string, string list) RequestHandler" where
  "failingHandler req res w = (Inl ''handler failed'', w @ [''handler''])"

text \<open>A loader context and a module environment whose route exports a number.\<close>

definition exampleContext :: LoaderContext where
  "exampleContext =
     \<lparr>resource = ''pages/api/hello.js'',
      loaders = [\<lparr>Loader.options = \<lparr>sdkPath = ''/sdk''\<rparr>,
                  path = ''/node_modules/@sentry/nextjs/dist/utils/api-wrapping-loader.js''\<rparr>]\<rparr>"

definition exampleModuleEnv :: "(string, nat) ModuleEnv" where
  "exampleModuleEnv = \<lparr>compile = (\<lambda>code filename. Inr (NotFunction 42)), wrapperSource = ''wrapped''\<rparr>"

text \<open>An entry object for the client build, as an asynchronous function.\<close>

definition exampleEntryObject :: "nat EntryPropertyObject" where
  "exampleEntryObject =
     [''main'' \<mapsto> EntryString ''./client.js'',
      ''main.js'' \<mapsto> EntryArray [],
      ''polyfills'' \<mapsto> EntryArray [''./polyfills.js'']]"

definition exampleEntry :: "(string, nat) EntryProperty" where
  "exampleEntry = EntryFunction (\<lambda>u. Inr exampleEntryObject)"

text \<open>An entry object for the server build, given as it is.\<close>

definition serverEntryObject :: "nat EntryPropertyObject" where
  "serverEntryObject =
     [''pages/_document'' \<mapsto>
        EntryPointObject (ImportArray [''./pages/_document.js'', ''./extra.js'']) [''layer'' \<mapsto> 7],
      ''main'' \<mapsto> EntryString ''./unrelated.js'',
      ''pages/index'' \<mapsto> EntryPointObject (ImportString ''./pages/index.js'') Map.empty]"

definition serverEntry :: "(string, nat) EntryProperty" where
  "serverEntry = EntryObject serverEntryObject"

text \<open>
  A build environment without release and without settings, an engine whose arrays
  inherit none of the option names, and provided options that name two of the defaults.
\<close>

definition exampleBuildEnv :: BuildEnv where
  "exampleBuildEnv =
     \<lparr>sentryRelease = None, SENTRY_URL = None, SENTRY_ORG = None, SENTRY_PROJECT = None,
      SENTRY_AUTH_TOKEN = None\<rparr>"

definition exampleProvidedOptions :: "(string \<times> string) list" where
  "exampleProvidedOptions = [(''release'', ''1.0.0''), (''include'', ''./dist'')]"

section \<open>Properties\<close>

subsection \<open>The transport\<close>

lemma constructor_module:
  "module (HTTPSTransport_constructor base opts) = Some Https"
  by (simp add: HTTPSTransport_constructor_def Let_def)

lemma constructor_api:
  "api (HTTPSTransport_constructor base opts) = base_api base opts"
  by (simp add: HTTPSTransport_constructor_def BaseTransport_constructor_def Let_def)

lemma constructor_client:
  "HTTPSTransport.client (HTTPSTransport_constructor base opts) =
     Some (if truthy (getProxy base (BaseTransport_constructor base opts) ''https'')
           then HttpsProxyAgent (the (getProxy base (BaseTransport_constructor base opts) ''https''))
           else HttpsAgent \<lparr>keepAlive = False, maxSockets = 30, timeout = 2000\<rparr>)"
  by (simp add: HTTPSTransport_constructor_def Let_def)

lemma exampleBase_no_proxy:
  "getProxy exampleBase (BaseTransport_constructor exampleBase None) ''https'' = None"
  by (simp add: exampleBase_def BaseTransport_constructor_def)

lemma exampleBase_proxy:
  "getProxy exampleBase (BaseTransport_constructor exampleBase (Some p)) ''https'' = Some p"
  by (simp add: exampleBase_def BaseTransport_constructor_def)

text \<open>
  C1, as stated, fails: with no proxy configured the agent that the constructor builds has
  \<open>keepAlive\<close> false, so its connections are not persistent.
\<close>

theorem default_agent_keepAlive_false:
  "map_option keepAlive (agentOptions (HTTPSTransport_constructor exampleBase None)) = Some False"
  by (simp add: agentOptions_def constructor_client exampleBase_no_proxy truthy_def)

text \<open>
  C1, amended: the agent that the constructor builds itself, which is the one in use
  exactly when no proxy is resolved, has keep-alive switched off, at most 30 concurrent
  sockets and a timeout of 2000 ms.
\<close>

theorem default_agent_options:
  "agentOptions (HTTPSTransport_constructor base opts) =
     (if truthy (getProxy base (BaseTransport_constructor base opts) ''https'') then None
      else Some \<lparr>keepAlive = False, maxSockets = 30, timeout = 2000\<rparr>)"
  by (simp add: agentOptions_def constructor_client)

text \<open>
  C2, as stated, fails: \<open>sendEvent\<close> calls the payload builder outside any \<open>try\<close>, so on
  a constructed transport an event on which the builder throws makes \<open>sendEvent\<close> throw
  synchronously, and no promise is returned.
\<close>

theorem sendEvent_throws_what_builder_throws:
  "sendEvent_throwing exampleCollaborators (HTTPSTransport_constructor exampleBase None) 0
     = Inl (CollaboratorThrew ''TypeError: Converting circular structure to JSON'')"
  by (simp add: sendEvent_throwing_def constructor_module exampleCollaborators_def)

text \<open>
  C2, amended: on a transport as the constructor leaves it, \<open>sendEvent\<close> and
  \<open>sendSession\<close> never throw their own \<open>No module available\<close> error, since the module is
  assigned. They throw synchronously exactly what the payload builder or \<open>_sendWithModule\<close>
  throws, and when both return they return the promise of \<open>_sendWithModule\<close>, called with
  the https module, the built request and the payload.
\<close>

theorem send_throws_only_what_collaborators_throw:
  "(\<forall>e. sendEvent_throwing col (HTTPSTransport_constructor base opts) event \<noteq> Inl (OwnError e))
   \<and> (\<forall>e. sendSession_throwing col (HTTPSTransport_constructor base opts) session \<noteq> Inl (OwnError e))
   \<and> (eventToSentryRequest_call col event (base_api base opts) = Inl x
        \<longrightarrow> sendEvent_throwing col (HTTPSTransport_constructor base opts) event
              = Inl (CollaboratorThrew x))
   \<and> (eventToSentryRequest_call col event (base_api base opts) = Inr r
        \<and> sendWithModule_call col (HTTPSTransport_constructor base opts) Https r (Inl event) = Inl x
        \<longrightarrow> sendEvent_throwing col (HTTPSTransport_constructor base opts) event
              = Inl (CollaboratorThrew x))
   \<and> (eventToSentryRequest_call col event (base_api base opts) = Inr r
        \<and> sendWithModule_call col (HTTPSTransport_constructor base opts) Https r (Inl event) = Inr p
        \<longrightarrow> sendEvent_throwing col (HTTPSTransport_constructor base opts) event = Inr p)
   \<and> (sessionToSentryRequest_call col session (base_api base opts) = Inl x
        \<longrightarrow> sendSession_throwing col (HTTPSTransport_constructor base opts) session
              = Inl (CollaboratorThrew x))
   \<and> (sessionToSentryRequest_call col session (base_api base opts) = Inr r
        \<and> sendWithModule_call col (HTTPSTransport_constructor base opts) Https r (Inr session) = Inl x
        \<longrightarrow> sendSession_throwing col (HTTPSTransport_constructor base opts) session
              = Inl (CollaboratorThrew x))
   \<and> (sessionToSentryRequest_call col session (base_api base opts) = Inr r
        \<and> sendWithModule_call col (HTTPSTransport_constructor base opts) Https r (Inr session) = Inr p
        \<longrightarrow> sendSession_throwing col (HTTPSTransport_constructor base opts) session = Inr p)"
  by (auto simp add: sendEvent_throwing_def sendSession_throwing_def constructor_module
        constructor_api split: sum.splits)

theorem send_throws_only_what_collaborators_throw_witness:
  "sendEvent_throwing exampleCollaborators (HTTPSTransport_constructor exampleBase None) 0
     = Inl (CollaboratorThrew ''TypeError: Converting circular structure to JSON'')
   \<and> sendEvent_throwing exampleCollaborators (HTTPSTransport_constructor exampleBase None) 199
     = Inl (CollaboratorThrew ''thrown by _sendWithModule'')
   \<and> sendEvent_throwing exampleCollaborators (HTTPSTransport_constructor exampleBase None) 5
     = Inr 1105
   \<and> sendSession_throwing exampleCollaborators (HTTPSTransport_constructor exampleBase None) 99
     = Inl (CollaboratorThrew ''thrown by _sendWithModule'')
   \<and> sendSession_throwing exampleCollaborators (HTTPSTransport_constructor exampleBase None) 5
     = Inr 1205"
  using send_throws_only_what_collaborators_throw
          [of exampleCollaborators exampleBase None 0 5
              "''TypeError: Converting circular structure to JSON''" 100 1205]
        send_throws_only_what_collaborators_throw
          [of exampleCollaborators exampleBase None 199 99 "''thrown by _sendWithModule''" 299 0]
        send_throws_only_what_collaborators_throw
          [of exampleCollaborators exampleBase None 5 5 "''unused''" 105 1105]
        send_throws_only_what_collaborators_throw
          [of exampleCollaborators exampleBase None 5 5 "''unused''" 205 1205]
  by (simp add: exampleCollaborators_def)

text \<open>
  With collaborators that always return, the two versions of each method agree: the
  only \<open>throw\<close> left is the one of the class.
\<close>

lemma sendEvent_throwing_returning:
  "sendEvent_throwing (returning base) this event = map_sum OwnError id (sendEvent base this event)"
  by (simp add: sendEvent_throwing_def sendEvent_def returning_def split: option.splits)

lemma sendSession_throwing_returning:
  "sendSession_throwing (returning base) this session
     = map_sum OwnError id (sendSession base this session)"
  by (simp add: sendSession_throwing_def sendSession_def returning_def split: option.splits)

text \<open>
  C3: the constructor sets the client from the proxy resolved for the scheme \<open>https\<close>.
  With a proxy (a non-empty string) the client is a proxy agent for that proxy; without one
  it is an https agent with at most 30 concurrent sockets and a timeout of 2000 ms, which
  agree with the default queue size and the default range of the network timeout.
\<close>

theorem constructor_configures_client:
  fixes base :: "('o, 'a, 'e, 's, 'r, 'p) BaseTransport"
  shows "(getProxy base (BaseTransport_constructor base opts) ''https'' = Some proxy \<and> proxy \<noteq> []
            \<longrightarrow> HTTPSTransport.client (HTTPSTransport_constructor base opts) = Some (HttpsProxyAgent proxy))
       \<and> (\<not> truthy (getProxy base (BaseTransport_constructor base opts) ''https'')
            \<longrightarrow> (\<exists>ao. HTTPSTransport.client (HTTPSTransport_constructor base opts) = Some (HttpsAgent ao)
                   \<and> maxSockets ao = 30 \<and> timeout ao = 2000
                   \<and> maxSockets ao = defaultMaxQueueSize \<and> defaultNetworkTimeout (timeout ao)))"
  by (simp add: constructor_client truthy_def defaultMaxQueueSize_def defaultNetworkTimeout_def)

theorem constructor_configures_client_witness:
  "HTTPSTransport.client (HTTPSTransport_constructor exampleBase (Some ''http://proxy:8080''))
     = Some (HttpsProxyAgent ''http://proxy:8080'')
   \<and> (\<exists>ao. HTTPSTransport.client (HTTPSTransport_constructor exampleBase None) = Some (HttpsAgent ao)
         \<and> maxSockets ao = 30 \<and> timeout ao = 2000
         \<and> maxSockets ao = defaultMaxQueueSize \<and> defaultNetworkTimeout (timeout ao))"
  using constructor_configures_client [of exampleBase "Some ''http://proxy:8080''" "''http://proxy:8080''"]
    constructor_configures_client [of exampleBase None "[]"]
  by (simp add: exampleBase_no_proxy exampleBase_proxy truthy_def)

text \<open>
  C4: \<open>sendEvent\<close> hands to \<open>_sendWithModule\<close> the https module, the request that
  \<open>eventToSentryRequest\<close> builds from the event and the transport's API configuration, and
  the event itself, and returns what that call returns; \<open>sendSession\<close> does the same with
  \<open>sessionToSentryRequest\<close> and the session.
\<close>

theorem send_delivers_built_request:
  "sendEvent base (HTTPSTransport_constructor base opts) event =
     Inr (sendWithModule base (HTTPSTransport_constructor base opts) Https
            (eventToSentryRequest base event (api (HTTPSTransport_constructor base opts))) (Inl event))
   \<and> sendSession base (HTTPSTransport_constructor base opts) session =
     Inr (sendWithModule base (HTTPSTransport_constructor base opts) Https
            (sessionToSentryRequest base session (api (HTTPSTransport_constructor base opts))) (Inr session))
   \<and> api (HTTPSTransport_constructor base opts) = base_api base opts"
  by (simp add: sendEvent_def sendSession_def constructor_module constructor_api)

text \<open>
  C5, as stated, fails: a transport whose module is missing is not refused when it is
  built; the error is thrown when an event is sent.
\<close>

theorem missing_module_thrown_at_send:
  "sendEvent exampleBase ((HTTPSTransport_constructor exampleBase None)\<lparr>module := None\<rparr>) 7
     = Inl (SentryError ''No module available in HTTPSTransport'')"
  by (simp add: sendEvent_def)

text \<open>
  C5, amended: the constructor makes no check for a missing network module, it assigns
  the https module and returns; the check is made at each send, where \<open>sendEvent\<close> and
  \<open>sendSession\<close> throw a \<open>SentryError\<close> on every call made while the module is unset.
\<close>

theorem missing_module_checked_at_send:
  "module (HTTPSTransport_constructor base opts) = Some Https
   \<and> (module this = None \<longrightarrow>
        sendEvent base this event = Inl (SentryError ''No module available in HTTPSTransport'')
        \<and> sendSession base this session = Inl (SentryError ''No module available in HTTPTransport''))"
  by (simp add: sendEvent_def sendSession_def constructor_module)

theorem missing_module_checked_at_send_witness:
  "module (HTTPSTransport_constructor exampleBase None) = Some Https
   \<and> module ((HTTPSTransport_constructor exampleBase None)\<lparr>module := None\<rparr>) = None
   \<and> sendEvent exampleBase ((HTTPSTransport_constructor exampleBase None)\<lparr>module := None\<rparr>) 7
       = Inl (SentryError ''No module available in HTTPSTransport'')
   \<and> sendSession exampleBase ((HTTPSTransport_constructor exampleBase None)\<lparr>module := None\<rparr>) 8
       = Inl (SentryError ''No module available in HTTPTransport'')"
  using missing_module_checked_at_send
          [of exampleBase None "(HTTPSTransport_constructor exampleBase None)\<lparr>module := None\<rparr>" 7 8]
  by simp

subsection \<open>The wrapped request handler\<close>

text \<open>
  C6, as stated, fails: the handler throws \<open>handler failed\<close>, the flush promise rejects,
  and the caller of the wrapper observes the rejection of the flush, not the handler's
  error.
\<close>

theorem wrapper_observes_flush_rejection:
  "fst (makeWrappedRequestHandler rejectingSentry failingHandler () () []) = Inl ''flush rejected''"
  by (simp add: makeWrappedRequestHandler_def rejectingSentry_def failingHandler_def)

text \<open>
  C6, amended: if the original handler throws, the wrapper calls \<open>captureException\<close> with
  the error and then awaits \<open>flush(2000)\<close>; provided both calls complete, it rethrows the
  original error unchanged, in the world the flush has left.
\<close>

theorem wrapper_rethrows_original:
  assumes "origHandler req res w = (Inl err, w1)"
    and "captureException sentry err w1 = (Inr eventId, w2)"
    and "flush sentry 2000 w2 = (Inr flushed, w3)"
  shows "makeWrappedRequestHandler sentry origHandler req res w = (Inl err, w3)"
  using assms by (simp add: makeWrappedRequestHandler_def)

theorem wrapper_rethrows_original_witness:
  "makeWrappedRequestHandler workingSentry failingHandler () () [] =
     (Inl ''handler failed'', [''handler'', ''captureException handler failed'', ''flush 2000''])"
proof -
  have h: "failingHandler () () [] = (Inl ''handler failed'', [''handler''])"
    by (simp add: failingHandler_def)
  have c: "captureException workingSentry ''handler failed'' [''handler'']
             = (Inr ''event-id'', [''handler'', ''captureException handler failed''])"
    by (simp add: workingSentry_def)
  have "ToString_nat 2000 = ''2000''"
    by code_simp
  then have f: "flush workingSentry 2000 [''handler'', ''captureException handler failed'']
             = (Inr True, [''handler'', ''captureException handler failed'', ''flush 2000''])"
    by (simp add: workingSentry_def)
  show ?thesis
    using wrapper_rethrows_original
            [where origHandler = failingHandler and sentry = workingSentry and req = "()"
               and res = "()" and w = "[]", OF h c f]
    by simp
qed

text \<open>
  The other paths of the wrapper: a handler that returns is passed through and the SDK is
  not called; an exception of \<open>captureException\<close> or a rejection of the flush replaces the
  handler's error.
\<close>

lemma wrapper_passes_result:
  "origHandler req res w = (Inr v, w1) \<Longrightarrow>
     makeWrappedRequestHandler sentry origHandler req res w = (Inr v, w1)"
  by (simp add: makeWrappedRequestHandler_def)

lemma wrapper_capture_throws:
  "origHandler req res w = (Inl err, w1) \<Longrightarrow> captureException sentry err w1 = (Inl e, w2) \<Longrightarrow>
     makeWrappedRequestHandler sentry origHandler req res w = (Inl e, w2)"
  by (simp add: makeWrappedRequestHandler_def)

lemma wrapper_flush_rejects:
  "origHandler req res w = (Inl err, w1) \<Longrightarrow> captureException sentry err w1 = (Inr eventId, w2) \<Longrightarrow>
     flush sentry 2000 w2 = (Inl e, w3) \<Longrightarrow>
     makeWrappedRequestHandler sentry origHandler req res w = (Inl e, w3)"
  by (simp add: makeWrappedRequestHandler_def)

subsection \<open>The loader\<close>

text \<open>
  C10: when the loader's own options are found among the loaders and the default export
  of the compiled module is not a function, \<open>load\<close> returns the raw input as it was given
  and writes one warning to the console.
\<close>

theorem load_returns_raw_input:
  assumes "getOptions (loaders this) = Some opts"
    and "compile env (String_replace rawInput ''@sentry/nextjs'' (sdkPath opts)) ''lookIMadeAModule''
           = Inr (NotFunction v)"
  shows "load env this rawInput console = (Inr rawInput, console @ [couldNotWrap (resource this)])"
  using assms by (simp add: load_def Let_def)

lemma exampleContext_options:
  "getOptions (loaders exampleContext) = Some \<lparr>sdkPath = ''/sdk''\<rparr>"
  by (simp add: exampleContext_def)

theorem load_returns_raw_input_witness:
  "load exampleModuleEnv exampleContext ''import '@sentry/nextjs'; export default 42'' []
     = (Inr ''import '@sentry/nextjs'; export default 42'',
        [''[Sentry] Could not wrap pages/api/hello.js for error handling. Default export is not a function.''])"
  using load_returns_raw_input [of exampleContext "\<lparr>sdkPath = ''/sdk''\<rparr>" exampleModuleEnv
      "''import '@sentry/nextjs'; export default 42''" 42 "[]"]
  by (simp add: exampleContext_options) (simp add: exampleModuleEnv_def exampleContext_def couldNotWrap_def)

subsection \<open>Injecting the config file\<close>

lemma injectionPoint_not_main_js:
  "injectionPoint isServer \<noteq> ''main.js''" "''main.js'' \<noteq> injectionPoint isServer"
  by (simp_all add: injectionPoint_def)

text \<open>
  C8: let the entry property be an object, or a function whose awaited call gives an
  object, and let that object have a value at the injection point, which is
  \<open>pages/_document\<close> for the server build and \<open>main\<close> otherwise. Then \<open>injectSentry\<close>
  resolves to an object whose value at the injection point lists the SDK's config file
  first (\<open>./sentry.server.config.js\<close> for the server build, \<open>./sentry.client.config.js\<close>
  otherwise) and the original entry points after it in their order: a string becomes the
  array of the file and the string, an array gets the file in front, and an entry point
  object keeps its other options and gets the same change under \<open>import\<close>. Every key other
  than the injection point and \<open>main.js\<close> is as before, and \<open>main.js\<close> is absent.
\<close>

theorem injectSentry_prepends:
  assumes "origEntryProperty = EntryObject obj
           \<or> (origEntryProperty = EntryFunction f \<and> f () = Inr obj)"
    and "obj (if isServer then ''pages/_document'' else ''main'') = Some v"
  shows "let point = (if isServer then ''pages/_document'' else ''main'');
             file = (if isServer then ''./sentry.server.config.js'' else ''./sentry.client.config.js'')
         in \<exists>r v'. injectSentry origEntryProperty isServer = Inr r
              \<and> r point = Some v'
              \<and> entryPoints v' = file # entryPoints v
              \<and> otherOptions v' = otherOptions v
              \<and> (\<forall>s. v = EntryString s \<longrightarrow> v' = EntryArray [file, s])
              \<and> (\<forall>xs. v = EntryArray xs \<longrightarrow> v' = EntryArray (file # xs))
              \<and> (\<forall>s other. v = EntryPointObject (ImportString s) other
                    \<longrightarrow> v' = EntryPointObject (ImportArray [file, s]) other)
              \<and> (\<forall>xs other. v = EntryPointObject (ImportArray xs) other
                    \<longrightarrow> v' = EntryPointObject (ImportArray (file # xs)) other)
              \<and> (\<forall>k. k \<noteq> point \<and> k \<noteq> ''main.js'' \<longrightarrow> r k = obj k)
              \<and> r ''main.js'' = None"
proof -
  from assms(1) have res: "resolveEntryProperty origEntryProperty = Inr obj"
    by (auto simp add: resolveEntryProperty_def)
  from assms(2) have at: "obj (injectionPoint isServer) = Some v"
    by (simp add: injectionPoint_def)
  show ?thesis
  proof (cases v)
    case (EntryString s)
    with res at show ?thesis
      by (cases "obj ''main.js''")
         (simp_all add: injectSentry_def Let_def injectionPoint_not_main_js,
          simp_all add: injectionPoint_def injectee_def)
  next
    case (EntryArray xs)
    with res at show ?thesis
      by (cases "obj ''main.js''")
         (simp_all add: injectSentry_def Let_def injectionPoint_not_main_js,
          simp_all add: injectionPoint_def injectee_def)
  next
    case (EntryPointObject imp other)
    with res at show ?thesis
      by (cases imp; cases "obj ''main.js''")
         (simp_all add: injectSentry_def Let_def injectionPoint_not_main_js,
          simp_all add: injectionPoint_def injectee_def)
  qed
qed


theorem injectSentry_prepends_witness:
  "(\<exists>r. injectSentry exampleEntry False = Inr r
        \<and> r ''main'' = Some (EntryArray [''./sentry.client.config.js'', ''./client.js''])
        \<and> r ''polyfills'' = Some (EntryArray [''./polyfills.js''])
        \<and> r ''main.js'' = None)
   \<and> (\<exists>r. injectSentry serverEntry True = Inr r
        \<and> r ''pages/_document'' =
            Some (EntryPointObject
                    (ImportArray [''./sentry.server.config.js'', ''./pages/_document.js'', ''./extra.js''])
                    [''layer'' \<mapsto> 7])
        \<and> r ''main'' = Some (EntryString ''./unrelated.js'')
        \<and> r ''main.js'' = None)"
proof
  have c1: "exampleEntry = EntryObject exampleEntryObject
        \<or> (exampleEntry = EntryFunction (\<lambda>u. Inr exampleEntryObject)
            \<and> (\<lambda>u. Inr exampleEntryObject :: string + nat EntryPropertyObject) () = Inr exampleEntryObject)"
    by (simp add: exampleEntry_def)
  have c2: "exampleEntryObject (if False then ''pages/_document'' else ''main'')
                   = Some (EntryString ''./client.js'')"
    by (simp add: exampleEntryObject_def)
  have p: "exampleEntryObject ''polyfills'' = Some (EntryArray [''./polyfills.js''])"
    by (simp add: exampleEntryObject_def)
  note T = injectSentry_prepends [where origEntryProperty = exampleEntry and obj = exampleEntryObject
        and isServer = False and f = "\<lambda>u. Inr exampleEntryObject", OF c1 c2, unfolded Let_def if_False]
  from T p show "\<exists>r. injectSentry exampleEntry False = Inr r
        \<and> r ''main'' = Some (EntryArray [''./sentry.client.config.js'', ''./client.js''])
        \<and> r ''polyfills'' = Some (EntryArray [''./polyfills.js''])
        \<and> r ''main.js'' = None"
    by (elim exE conjE) simp
next
  have s1: "serverEntry = EntryObject serverEntryObject
        \<or> (serverEntry = EntryFunction (\<lambda>u. Inl ''unused'')
            \<and> (\<lambda>u. Inl ''unused'' :: string + nat EntryPropertyObject) () = Inr serverEntryObject)"
    by (simp add: serverEntry_def)
  have s2: "serverEntryObject (if True then ''pages/_document'' else ''main'')
      = Some (EntryPointObject (ImportArray [''./pages/_document.js'', ''./extra.js'']) [''layer'' \<mapsto> 7])"
    by (simp add: serverEntryObject_def)
  have m: "serverEntryObject ''main'' = Some (EntryString ''./unrelated.js'')"
    by (simp add: serverEntryObject_def)
  note T = injectSentry_prepends [where origEntryProperty = serverEntry and obj = serverEntryObject
        and isServer = True and f = "\<lambda>u. Inl ''unused''", OF s1 s2, unfolded Let_def if_True]
  from T m show "\<exists>r. injectSentry serverEntry True = Inr r
        \<and> r ''pages/_document'' =
            Some (EntryPointObject
                    (ImportArray [''./sentry.server.config.js'', ''./pages/_document.js'', ''./extra.js''])
                    [''layer'' \<mapsto> 7])
        \<and> r ''main'' = Some (EntryString ''./unrelated.js'')
        \<and> r ''main.js'' = None"
    by (elim exE conjE) simp
qed


subsection \<open>The warning about overridden options\<close>

lemma ToString_nat_digits: "set (ToString_nat n) \<subseteq> set ''0123456789''"
proof (induction n rule: ToString_nat.induct)
  case (1 n)
  have d: "\<And>k. k < 10 \<Longrightarrow> ''0123456789'' ! k \<in> set ''0123456789''"
    by (rule nth_mem) simp
  show ?case
  proof (cases "n < 10")
    case True
    have "ToString_nat n = [''0123456789'' ! n]"
      using True by (subst ToString_nat.simps) simp
    then show ?thesis using d [OF True] by (simp del: ToString_nat.simps)
  next
    case False
    have e: "ToString_nat n = ToString_nat (n div 10) @ [''0123456789'' ! (n mod 10)]"
      using False by (subst ToString_nat.simps) simp
    have "n mod 10 < 10" by simp
    from d [OF this] 1 [OF False] show ?thesis
      unfolding e by (simp del: ToString_nat.simps)
  qed
qed

lemma not_index:
  assumes "c \<in> set key" and "c \<notin> set ''0123456789''"
  shows "key \<notin> set (map ToString_nat ns)"
proof
  assume "key \<in> set (map ToString_nat ns)"
  then obtain n where "key = ToString_nat n" by auto
  with assms(1) ToString_nat_digits [of n] have "c \<in> set ''0123456789''" by blast
  with assms(2) show False by contradiction
qed

lemma overrides_keys:
  "webpackPluginOptionOverrides inherited env provided =
     map (\<lambda>key. in_Array inherited key (Object_keys provided)) overrideKeys"
  by (simp add: webpackPluginOptionOverrides_def defaultWebpackPluginOptions_def Object_keys_def overrideKeys_def)

text \<open>
  The entries of the list do not depend on the provided options: no option key is an index
  of an array or \<open>length\<close>, so each entry only tells whether arrays inherit a property of
  that name.
\<close>

lemma letter_not_digit: "CHR ''r'' \<notin> set ''0123456789''" "CHR ''u'' \<notin> set ''0123456789''"
  "CHR ''o'' \<notin> set ''0123456789''" "CHR ''p'' \<notin> set ''0123456789''" "CHR ''a'' \<notin> set ''0123456789''"
  "CHR ''c'' \<notin> set ''0123456789''" "CHR ''s'' \<notin> set ''0123456789''" "CHR ''i'' \<notin> set ''0123456789''"
  "CHR ''d'' \<notin> set ''0123456789''"
  by simp_all

lemma in_Array_option_key:
  assumes "key \<in> set overrideKeys"
  shows "in_Array inherited key arr = inherited key"
proof -
  have "hd key \<in> set key \<and> hd key \<notin> set ''0123456789''"
    using assms unfolding overrideKeys_def by (elim disjE | simp)+
  then have "key \<notin> set (map ToString_nat [0..<length arr])"
    using not_index by blast
  moreover have "key \<noteq> ''length''"
    using assms unfolding overrideKeys_def by (elim disjE | simp)+
  ultimately show ?thesis
    by (simp add: in_Array_def)
qed

lemma overrides_ignore_provided:
  "webpackPluginOptionOverrides inherited env provided = map inherited overrideKeys"
  unfolding overrides_keys by (rule map_cong) (simp_all add: in_Array_option_key)

text \<open>
  C9: the list of overrides has one entry for each of the ten default option keys and for
  \<open>dryrun\<close>, whatever options are provided: each entry tells whether the key is a property
  of the array of provided keys (an index below its length, \<open>length\<close>, or an inherited
  property), which for these keys leaves only the inherited ones, so the names of the
  provided options never enter. The length of the list is 11, and every call of
  \<open>withSentryConfig\<close> appends to the log the warning with the entries joined by commas,
  also when no option is provided.
\<close>

theorem withSentryConfig_always_warns:
  "webpackPluginOptionOverrides inherited env providedWebpackPluginOptions =
     map (\<lambda>key. key \<in> set (map ToString_nat [0..<length providedWebpackPluginOptions])
                 \<or> key = ''length'' \<or> inherited key)
       [''release'', ''url'', ''org'', ''project'', ''authToken'', ''configFile'',
        ''stripPrefix'', ''urlPrefix'', ''include'', ''ignore'', ''dryrun'']
   \<and> webpackPluginOptionOverrides inherited env providedWebpackPluginOptions =
     map inherited
       [''release'', ''url'', ''org'', ''project'', ''authToken'', ''configFile'',
        ''stripPrefix'', ''urlPrefix'', ''include'', ''ignore'', ''dryrun'']
   \<and> length (webpackPluginOptionOverrides inherited env providedWebpackPluginOptions) = 11
   \<and> withSentryConfig inherited env providedWebpackPluginOptions logger =
       logger @ [overrideWarning (webpackPluginOptionOverrides inherited env providedWebpackPluginOptions)]
   \<and> withSentryConfig inherited env providedWebpackPluginOptions logger =
       logger @
       [''[next-plugin-sentry] You are overriding the following automatically-set SentryWebpackPlugin config options:''
        @ [CHR 0x0A, CHR 0x09]
        @ Array_join
            (map (\<lambda>key. if inherited key then ''true'' else ''false'')
               [''release'', ''url'', ''org'', ''project'', ''authToken'', ''configFile'',
                ''stripPrefix'', ''urlPrefix'', ''include'', ''ignore'', ''dryrun''])
            '',''
        @ '','' @ [CHR 0x0A]
        @ ''which has the possibility of breaking source map upload and application. This is only a good idea if you know what you're doing.'']
   \<and> withSentryConfig inherited env ([] :: (string \<times> 'v) list) logger \<noteq> logger"
proof -
  have a: "webpackPluginOptionOverrides inherited env providedWebpackPluginOptions =
     map (\<lambda>key. key \<in> set (map ToString_nat [0..<length providedWebpackPluginOptions])
                 \<or> key = ''length'' \<or> inherited key) overrideKeys"
    unfolding overrides_keys by (simp add: in_Array_def Object_keys_def)
  have b: "webpackPluginOptionOverrides inherited env providedWebpackPluginOptions
             = map inherited overrideKeys"
    by (rule overrides_ignore_provided)
  have c: "\<And>provided :: (string \<times> 'w) list. withSentryConfig inherited env provided logger =
       logger @ [overrideWarning (webpackPluginOptionOverrides inherited env provided)]"
    by (simp add: withSentryConfig_def Let_def overrides_ignore_provided overrideKeys_def)
  have d: "overrideWarning (map inherited overrideKeys) =
       ''[next-plugin-sentry] You are overriding the following automatically-set SentryWebpackPlugin config options:''
        @ [CHR 0x0A, CHR 0x09]
        @ Array_join (map (\<lambda>key. if inherited key then ''true'' else ''false'') overrideKeys) '',''
        @ '','' @ [CHR 0x0A]
        @ ''which has the possibility of breaking source map upload and application. This is only a good idea if you know what you're doing.''"
    unfolding overrideWarning_def by (simp add: Boolean_toString_def comp_def)
  show ?thesis
  proof (intro conjI)
    show "webpackPluginOptionOverrides inherited env providedWebpackPluginOptions =
       map (\<lambda>key. key \<in> set (map ToString_nat [0..<length providedWebpackPluginOptions])
                   \<or> key = ''length'' \<or> inherited key)
         [''release'', ''url'', ''org'', ''project'', ''authToken'', ''configFile'',
          ''stripPrefix'', ''urlPrefix'', ''include'', ''ignore'', ''dryrun'']"
      by (rule a [unfolded overrideKeys_def])
    show "webpackPluginOptionOverrides inherited env providedWebpackPluginOptions =
       map inherited
         [''release'', ''url'', ''org'', ''project'', ''authToken'', ''configFile'',
          ''stripPrefix'', ''urlPrefix'', ''include'', ''ignore'', ''dryrun'']"
      by (rule b [unfolded overrideKeys_def])
    show "length (webpackPluginOptionOverrides inherited env providedWebpackPluginOptions) = 11"
      by (simp add: b overrideKeys_def)
    show "withSentryConfig inherited env providedWebpackPluginOptions logger =
       logger @ [overrideWarning (webpackPluginOptionOverrides inherited env providedWebpackPluginOptions)]"
      by (rule c)
    show "withSentryConfig inherited env providedWebpackPluginOptions logger =
       logger @
       [''[next-plugin-sentry] You are overriding the following automatically-set SentryWebpackPlugin config options:''
        @ [CHR 0x0A, CHR 0x09]
        @ Array_join
            (map (\<lambda>key. if inherited key then ''true'' else ''false'')
               [''release'', ''url'', ''org'', ''project'', ''authToken'', ''configFile'',
                ''stripPrefix'', ''urlPrefix'', ''include'', ''ignore'', ''dryrun''])
            '',''
        @ '','' @ [CHR 0x0A]
        @ ''which has the possibility of breaking source map upload and application. This is only a good idea if you know what you're doing.'']"
      by (simp only: c b d) (simp only: overrideKeys_def)
    show "withSentryConfig inherited env ([] :: (string \<times> 'v) list) logger \<noteq> logger"
      by (simp add: c)
  qed
qed

theorem withSentryConfig_always_warns_witness:
  "withSentryConfig (\<lambda>key. False) exampleBuildEnv exampleProvidedOptions [''earlier line''] =
     [''earlier line'',
      ''[next-plugin-sentry] You are overriding the following automatically-set SentryWebpackPlugin config options:''
      @ [CHR 0x0A, CHR 0x09]
      @ ''false,false,false,false,false,false,false,false,false,false,false,''
      @ [CHR 0x0A]
      @ ''which has the possibility of breaking source map upload and application. This is only a good idea if you know what you're doing.'']"
proof -
  note T = withSentryConfig_always_warns
             [of "\<lambda>key. False" exampleBuildEnv exampleProvidedOptions "[''earlier line'']"]
  note line = T [THEN conjunct2, THEN conjunct2, THEN conjunct2, THEN conjunct2, THEN conjunct1]
  show ?thesis
    unfolding line by simp
qed


subsection \<open>The layer stack\<close>

lemma scopesPresent_append [simp]:
  "scopesPresent (xs @ ys) = (scopesPresent xs \<and> scopesPresent ys)"
  by (simp add: scopesPresent_def)

lemma scopesPresent_butlast: "scopesPresent stack \<Longrightarrow> scopesPresent (butlast stack)"
  by (simp add: scopesPresent_def list_all_iff) (meson in_set_butlastD)

lemma scopesPresent_last:
  "scopesPresent stack \<Longrightarrow> rev stack = cur # below \<Longrightarrow> scope cur \<noteq> None"
proof -
  assume a: "scopesPresent stack" and r: "rev stack = cur # below"
  from r have "cur \<in> set stack"
    by (metis list.set_intros(1) set_rev)
  with a show ?thesis by (simp add: scopesPresent_def list_all_iff)
qed

lemma scopesPresent_pushScope: "scopesPresent stack \<Longrightarrow> scopesPresent (pushScope stack)"
  by (cases "rev stack") (simp_all add: pushScope_def scopesPresent_def)

lemma scopesPresent_popScope: "scopesPresent stack \<Longrightarrow> scopesPresent (snd (popScope stack))"
  by (simp add: popScope_def scopesPresent_butlast)

lemma scopesPresent_bindClient: "scopesPresent stack \<Longrightarrow> scopesPresent (bindClient c stack)"
proof (cases "rev stack")
  case Nil
  assume "scopesPresent stack"
  with Nil show ?thesis by (simp add: bindClient_def)
next
  case (Cons cur below)
  assume a: "scopesPresent stack"
  from scopesPresent_last [OF a Cons] scopesPresent_butlast [OF a] Cons show ?thesis
    by (simp add: bindClient_def) (simp add: scopesPresent_def)
qed

lemma scopesPresent_mutateScope: "scopesPresent stack \<Longrightarrow> scopesPresent (mutateScope f stack)"
proof (cases "rev stack")
  case Nil
  assume "scopesPresent stack"
  with Nil show ?thesis by (simp add: mutateScope_def)
next
  case (Cons cur below)
  assume a: "scopesPresent stack"
  from scopesPresent_last [OF a Cons] scopesPresent_butlast [OF a] Cons show ?thesis
    by (simp add: mutateScope_def) (simp add: scopesPresent_def)
qed

lemma scopesPresent_hubStep: "scopesPresent stack \<Longrightarrow> scopesPresent (hubStep stack op)"
  by (cases op)
     (simp_all add: scopesPresent_pushScope scopesPresent_popScope scopesPresent_bindClient
        scopesPresent_mutateScope withScope_def)

lemma scopesPresent_foldl:
  "scopesPresent stack \<Longrightarrow> scopesPresent (foldl hubStep stack ops)"
  by (induction ops arbitrary: stack) (simp_all add: scopesPresent_hubStep)

lemma scopesPresent_freshStack: "scopesPresent freshStack"
  by (simp add: freshStack_def scopesPresent_def)

text \<open>
  C7: a fresh stack holds one layer, whose scope is the empty scope; every operation of
  the hub keeps the property that each layer has a scope; so each layer of a stack reached
  from the fresh one by any run of operations has a scope.
\<close>

theorem layer_scope_never_null:
  "map scope (freshStack :: 'c Layer list) = [Some emptyScope]
   \<and> (scopesPresent stack \<longrightarrow> scopesPresent (hubStep stack op))
   \<and> scopesPresent (hubRun ops)"
  by (simp add: scopesPresent_hubStep hubRun_def scopesPresent_foldl scopesPresent_freshStack)
     (simp add: freshStack_def)


theorem layer_scope_never_null_witness:
  "scopesPresent (freshStack :: nat Layer list)
   \<and> scopesPresent (hubStep (freshStack :: nat Layer list) PushScope)
   \<and> scopesPresent (hubRun [PushScope, BindClient (3::nat), MutateScope (\<lambda>s. s\<lparr>user := Some ''u''\<rparr>), PopScope, PopScope])"
  using layer_scope_never_null [of "freshStack :: nat Layer list" PushScope
      "[PushScope, BindClient (3::nat), MutateScope (\<lambda>s. s\<lparr>user := Some ''u''\<rparr>), PopScope, PopScope]"]
  by (simp add: freshStack_def scopesPresent_def)

end
